theory Spec2Isabelle
  imports Complex_Main "HOL-Library.Word"
begin

section \<open>JavaScript values used by the todo service\<close>

text \<open>
  The service is \<^verbatim>\<open>src/src/app.js\<close>: an Express application over two module-level
  variables, \<^verbatim>\<open>todos\<close> (an array of records) and \<^verbatim>\<open>nextId\<close> (a counter starting at 1).

  A JavaScript string is a sequence of 16-bit code units. Every character that
  \<^verbatim>\<open>String.prototype.trim\<close> and \<^verbatim>\<open>parseInt\<close> treat as white space lies in the basic
  plane, so both are functions of the code units alone.
\<close>

type_synonym jschar = "16 word"
type_synonym jsstring = "jschar list"

text \<open>An ASCII literal as a JavaScript string.\<close>

definition js :: "string \<Rightarrow> jsstring" where
  "js s = map (\<lambda>c. of_nat (of_char c)) s"

text \<open>
  ECMAScript \<^verbatim>\<open>WhiteSpace\<close> and \<^verbatim>\<open>LineTerminator\<close>: TAB, LF, VT, FF, CR, SP, NBSP,
  U+1680, U+2000 to U+200A, U+2028, U+2029, U+202F, U+205F, U+3000 and U+FEFF.
\<close>

definition isWhiteSpace :: "jschar \<Rightarrow> bool" where
  "isWhiteSpace c \<longleftrightarrow>
     c = 0x0009 \<or> c = 0x000A \<or> c = 0x000B \<or> c = 0x000C \<or> c = 0x000D \<or> c = 0x0020 \<or>
     c = 0x00A0 \<or> c = 0x1680 \<or> (0x2000 \<le> c \<and> c \<le> 0x200A) \<or> c = 0x2028 \<or>
     c = 0x2029 \<or> c = 0x202F \<or> c = 0x205F \<or> c = 0x3000 \<or> c = 0xFEFF"

text \<open>\<^verbatim>\<open>s.trim()\<close>: white space removed at both ends.\<close>

definition trim :: "jsstring \<Rightarrow> jsstring" where
  "trim s = rev (dropWhile isWhiteSpace (rev (dropWhile isWhiteSpace s)))"

text \<open>\<^verbatim>\<open>s.substr(start, len)\<close> for non-negative arguments.\<close>

definition substr :: "nat \<Rightarrow> nat \<Rightarrow> jsstring \<Rightarrow> jsstring" where
  "substr start len s = take len (drop start s)"

text \<open>
  The decimal digits of a non-negative integer, as a template literal renders the value
  of \<^verbatim>\<open>Date.now()\<close>.
\<close>

definition digitChar :: "nat \<Rightarrow> jschar" where
  "digitChar d = of_nat (48 + d)"

function decimal :: "nat \<Rightarrow> jsstring" where
  "decimal n = (if n < 10 then [digitChar n] else decimal (n div 10) @ [digitChar (n mod 10)])"
  by pat_completeness auto
termination
  by (relation "measure (\<lambda>n. n)") auto

declare decimal.simps [simp del]

text \<open>
  \<^verbatim>\<open>parseInt(string)\<close> with no radix: leading white space is skipped, a sign is read, a
  prefix \<^verbatim>\<open>0x\<close> or \<^verbatim>\<open>0X\<close> selects radix 16, and the longest run of digits is the value;
  what follows the digits is ignored. With no digit the result is \<^verbatim>\<open>NaN\<close>, which is
  \<open>None\<close> here. The result is compared with identifiers only, which are integers a
  double holds exactly, so the value is kept as an integer (\<^verbatim>\<open>-0\<close> is \<open>0\<close>: the two are
  equal under \<^verbatim>\<open>===\<close>).
\<close>

definition digitValue :: "jschar \<Rightarrow> nat option" where
  "digitValue c =
     (if 0x30 \<le> c \<and> c \<le> 0x39 then Some (unat c - 48)
      else if 0x61 \<le> c \<and> c \<le> 0x7A then Some (unat c - 87)
      else if 0x41 \<le> c \<and> c \<le> 0x5A then Some (unat c - 55)
      else None)"

definition isRadixDigit :: "nat \<Rightarrow> jschar \<Rightarrow> bool" where
  "isRadixDigit radix c = (case digitValue c of None \<Rightarrow> False | Some d \<Rightarrow> d < radix)"

definition digitsValue :: "nat \<Rightarrow> jsstring \<Rightarrow> nat" where
  "digitsValue radix ds =
     foldl (\<lambda>acc c. acc * radix + (case digitValue c of None \<Rightarrow> 0 | Some d \<Rightarrow> d)) 0 ds"

definition stripSign :: "jsstring \<Rightarrow> bool \<times> jsstring" where
  "stripSign s =
     (case s of
        [] \<Rightarrow> (False, [])
      | c # rest \<Rightarrow>
          if c = 0x2D then (True, rest) else if c = 0x2B then (False, rest) else (False, s))"

definition stripPrefix :: "jsstring \<Rightarrow> nat \<times> jsstring" where
  "stripPrefix s =
     (case s of
        c # x # rest \<Rightarrow> if c = 0x30 \<and> (x = 0x78 \<or> x = 0x58) then (16, rest) else (10, s)
      | _ \<Rightarrow> (10, s))"

definition parseInt :: "jsstring \<Rightarrow> int option" where
  "parseInt inputString =
     (let (neg, s) = stripSign (dropWhile isWhiteSpace inputString);
          (radix, z) = stripPrefix s;
          ds = takeWhile (isRadixDigit radix) z
      in if ds = [] then None
         else Some ((if neg then - 1 else 1) * int (digitsValue radix ds)))"

text \<open>
  What \<^verbatim>\<open>express.json()\<close> can put into a field of \<^verbatim>\<open>req.body\<close>: a JSON value. A field
  that is absent reads as \<^verbatim>\<open>undefined\<close>, which is \<open>None\<close> of \<open>json option\<close>.
\<close>

datatype json =
    JNull
  | JBool bool
  | JNum real
  | JStr jsstring
  | JArr "json list"
  | JObj "(jsstring \<times> json) list"

text \<open>Truthiness, as \<^verbatim>\<open>!title\<close> tests it.\<close>

fun truthy :: "json \<Rightarrow> bool" where
  "truthy JNull = False"
| "truthy (JBool b) = b"
| "truthy (JNum x) = (x \<noteq> 0)"
| "truthy (JStr s) = (s \<noteq> [])"
| "truthy (JArr xs) = True"
| "truthy (JObj kvs) = True"

section \<open>The store\<close>

text \<open>
  A todo as lines 80 to 85 build it. \<^verbatim>\<open>PUT\<close> assigns whatever JSON value the body holds
  to \<^verbatim>\<open>title\<close> and \<^verbatim>\<open>completed\<close>, so both fields are JSON values. The identifier is the
  value of \<^verbatim>\<open>nextId\<close>, a natural number (increments by one are exact on doubles below
  \<open>2^53\<close>, which no process reaches).
\<close>

record todo =
  todo_id :: nat
  title :: json
  completed :: json
  createdAt :: jsstring

record store =
  todos :: "todo list"
  nextId :: nat

definition store0 :: store where
  "store0 = \<lparr>todos = [], nextId = 1\<rparr>"

text \<open>\<^verbatim>\<open>t.id === parseInt(req.params.id)\<close>: never true for \<^verbatim>\<open>NaN\<close>.\<close>

definition idMatches :: "int option \<Rightarrow> todo \<Rightarrow> bool" where
  "idMatches n t = (case n of None \<Rightarrow> False | Some k \<Rightarrow> int (todo_id t) = k)"

text \<open>\<^verbatim>\<open>Array.prototype.findIndex\<close>; \<open>None\<close> is the result \<^verbatim>\<open>-1\<close>.\<close>

fun findIndex :: "('a \<Rightarrow> bool) \<Rightarrow> 'a list \<Rightarrow> nat option" where
  "findIndex p [] = None"
| "findIndex p (x # xs) =
     (if p x then Some 0 else (case findIndex p xs of None \<Rightarrow> None | Some i \<Rightarrow> Some (Suc i)))"

text \<open>\<^verbatim>\<open>xs.splice(i, 1)\<close>: the array without its element at \<open>i\<close>.\<close>

definition splice1 :: "nat \<Rightarrow> 'a list \<Rightarrow> 'a list" where
  "splice1 i xs = take i xs @ drop (Suc i) xs"

section \<open>Requests, responses and the handlers\<close>

datatype resp_body =
    ErrorBody jsstring
  | HealthBody jsstring
  | MetricsBody
  | TodosBody "todo list" nat
  | TodoBody todo
  | DeletedBody jsstring todo

text \<open>A handler either sends a status and a body or throws (a \<^verbatim>\<open>TypeError\<close>).\<close>

datatype outcome = Sent nat resp_body | Thrown

definition notFound :: outcome where
  "notFound = Sent 404 (ErrorBody (js ''Todo not found''))"

definition titleRequired :: outcome where
  "titleRequired = Sent 400 (ErrorBody (js ''Title is required''))"

text \<open>\<^verbatim>\<open>app.get('/todos')\<close>, line 62.\<close>

definition get_todos :: "store \<Rightarrow> outcome \<times> store" where
  "get_todos s = (Sent 200 (TodosBody (todos s) (length (todos s))), s)"

text \<open>\<^verbatim>\<open>app.get('/todos/:id')\<close>, line 67.\<close>

definition get_todo :: "jsstring \<Rightarrow> store \<Rightarrow> outcome \<times> store" where
  "get_todo p s =
     (case find (idMatches (parseInt p)) (todos s) of
        None \<Rightarrow> (notFound, s)
      | Some t \<Rightarrow> (Sent 200 (TodoBody t), s))"

text \<open>
  \<^verbatim>\<open>app.post('/todos')\<close>, line 74. A title that is truthy and not a string has no
  \<^verbatim>\<open>trim\<close> method: the call throws before the store is touched.
\<close>

definition post_todos :: "jsstring \<Rightarrow> json option \<Rightarrow> store \<Rightarrow> outcome \<times> store" where
  "post_todos stamp ttl s =
     (case ttl of
        None \<Rightarrow> (titleRequired, s)
      | Some v \<Rightarrow>
          if \<not> truthy v then (titleRequired, s)
          else (case v of
                  JStr t \<Rightarrow>
                    if trim t = [] then (titleRequired, s)
                    else
                      let td = \<lparr>todo_id = nextId s, title = JStr (trim t),
                                completed = JBool False, createdAt = stamp\<rparr>
                      in (Sent 201 (TodoBody td),
                          \<lparr>todos = todos s @ [td], nextId = nextId s + 1\<rparr>)
                | _ \<Rightarrow> (Thrown, s)))"

text \<open>
  \<^verbatim>\<open>app.put('/todos/:id')\<close>, line 93. \<^verbatim>\<open>find\<close> returns the first matching record itself,
  and the assignments change it in place: the array is updated at that index.
\<close>

definition put_todo :: "jsstring \<Rightarrow> json option \<Rightarrow> json option \<Rightarrow> store \<Rightarrow> outcome \<times> store" where
  "put_todo p ttl cmp s =
     (case findIndex (idMatches (parseInt p)) (todos s) of
        None \<Rightarrow> (notFound, s)
      | Some i \<Rightarrow>
          let t = todos s ! i;
              t1 = (case ttl of None \<Rightarrow> t | Some v \<Rightarrow> t\<lparr>title := v\<rparr>);
              t2 = (case cmp of None \<Rightarrow> t1 | Some v \<Rightarrow> t1\<lparr>completed := v\<rparr>)
          in (Sent 200 (TodoBody t2), s\<lparr>todos := (todos s)[i := t2]\<rparr>))"

text \<open>\<^verbatim>\<open>app.delete('/todos/:id')\<close>, line 106.\<close>

definition delete_todo :: "jsstring \<Rightarrow> store \<Rightarrow> outcome \<times> store" where
  "delete_todo p s =
     (case findIndex (idMatches (parseInt p)) (todos s) of
        None \<Rightarrow> (notFound, s)
      | Some i \<Rightarrow>
          (Sent 200 (DeletedBody (js ''Todo deleted successfully'') (todos s ! i)),
           s\<lparr>todos := splice1 i (todos s)\<rparr>))"

section \<open>The application\<close>

text \<open>
  What a request brings besides its route: the header \<^verbatim>\<open>x-correlation-id\<close> when it is
  sent, and the body as \<^verbatim>\<open>express.json()\<close> leaves it. \<open>Body ttl cmp\<close> is a parsed body
  (\<^verbatim>\<open>{}\<close> when none was sent) with its fields \<^verbatim>\<open>title\<close> and \<^verbatim>\<open>completed\<close>; \<open>Malformed\<close> is
  a body that \<^verbatim>\<open>express.json()\<close> (line 14) refuses, for which it passes an error on and
  Express skips every middleware and route up to the error handler (line 121).
\<close>

datatype verb = GET | POST | PUT | DELETE | OTHER

datatype target = Health | Metrics | Todos | TodoById jsstring | Unmatched

datatype payload = Malformed | Body "json option" "json option"

text \<open>
  The body as it arrives at \<^verbatim>\<open>express.json()\<close>: its length in bytes and, when it is JSON
  text, the fields \<^verbatim>\<open>title\<close> and \<^verbatim>\<open>completed\<close> of the value it denotes. Line 14 uses the
  middleware with its defaults, so the limit is \<^verbatim>\<open>100kb\<close>, 102400 bytes: a longer body
  is refused as one that is not JSON is.
\<close>

record rawBody =
  byteLength :: nat
  parsed :: "(json option \<times> json option) option"

definition jsonLimit :: nat where
  "jsonLimit = 102400"

definition express_json :: "rawBody \<Rightarrow> payload" where
  "express_json b =
     (if jsonLimit < byteLength b then Malformed
      else (case parsed b of None \<Rightarrow> Malformed | Some (ttl, cmp) \<Rightarrow> Body ttl cmp))"

record request =
  meth :: verb
  target :: target
  correlationHeader :: "jsstring option"
  payload :: payload

text \<open>
  What the request reads from its environment: \<^verbatim>\<open>Date.now()\<close> in the middleware,
  \<^verbatim>\<open>Math.random().toString(36)\<close> there, and \<^verbatim>\<open>new Date().toISOString()\<close> in a handler.
\<close>

record env =
  now :: nat
  random36 :: jsstring
  isoNow :: jsstring

record response =
  status :: nat
  body :: resp_body
  correlation :: "jsstring option"

text \<open>The generated identifier of line 36.\<close>

definition generatedId :: "nat \<Rightarrow> jsstring \<Rightarrow> jsstring" where
  "generatedId t r = decimal t @ js ''-'' @ substr 2 9 r"

text \<open>
  \<^verbatim>\<open>req.headers['x-correlation-id'] || generated\<close>: an absent header and an empty one
  are both falsy.
\<close>

definition correlationId :: "jsstring option \<Rightarrow> nat \<Rightarrow> jsstring \<Rightarrow> jsstring" where
  "correlationId h t r =
     (case h of
        None \<Rightarrow> generatedId t r
      | Some v \<Rightarrow> if v = [] then generatedId t r else v)"

text \<open>The routes in the order of their registration; line 116 answers what none matched.\<close>

fun route :: "env \<Rightarrow> verb \<Rightarrow> target \<Rightarrow> json option \<Rightarrow> json option \<Rightarrow> store \<Rightarrow> outcome \<times> store" where
  "route e GET Health ttl cmp s = (Sent 200 (HealthBody (isoNow e)), s)"
| "route e GET Metrics ttl cmp s = (Sent 200 MetricsBody, s)"
| "route e GET Todos ttl cmp s = get_todos s"
| "route e GET (TodoById p) ttl cmp s = get_todo p s"
| "route e POST Todos ttl cmp s = post_todos (isoNow e) ttl s"
| "route e PUT (TodoById p) ttl cmp s = put_todo p ttl cmp s"
| "route e DELETE (TodoById p) ttl cmp s = delete_todo p s"
| "route e m t ttl cmp s = (Sent 404 (ErrorBody (js ''Route not found'')), s)"

definition internalError :: resp_body where
  "internalError = ErrorBody (js ''Internal server error'')"

text \<open>
  One request through the application: the JSON middleware, the correlation
  middleware, the routes, the error handler. Logging and the Prometheus counters do not
  touch the store or the response and are left out.
\<close>

definition app :: "env \<Rightarrow> request \<Rightarrow> store \<Rightarrow> response \<times> store" where
  "app e r s =
     (case payload r of
        Malformed \<Rightarrow> (\<lparr>status = 500, body = internalError, correlation = None\<rparr>, s)
      | Body ttl cmp \<Rightarrow>
          let cid = correlationId (correlationHeader r) (now e) (random36 e);
              (out, s') = route e (meth r) (target r) ttl cmp s
          in (case out of
                Sent st b \<Rightarrow> (\<lparr>status = st, body = b, correlation = Some cid\<rparr>, s')
              | Thrown \<Rightarrow> (\<lparr>status = 500, body = internalError, correlation = Some cid\<rparr>, s')))"

text \<open>A process lifetime: requests served one after the other, from the empty store.\<close>

fun run :: "(env \<times> request) list \<Rightarrow> store \<Rightarrow> response list \<times> store" where
  "run [] s = ([], s)"
| "run (er # tr) s =
     (let (resp, s1) = app (fst er) (snd er) s;
          (resps, s2) = run tr s1
      in (resp # resps, s2))"

text \<open>The identifier a response issued, when it is the 201 of a creation.\<close>

definition createdId :: "response \<Rightarrow> nat option" where
  "createdId resp =
     (if status resp = 201
      then (case body resp of TodoBody t \<Rightarrow> Some (todo_id t) | _ \<Rightarrow> None)
      else None)"

definition issued :: "response list \<Rightarrow> nat list" where
  "issued resps = List.map_filter createdId resps"

section \<open>Invariant and sample inputs\<close>

text \<open>
  \<open>consistent h s\<close> relates the identifiers issued so far, in the order of their
  creation, to the store: they increase strictly and lie below \<^verbatim>\<open>nextId\<close>, the records
  of the store are in increasing order of identifier, and every record carries an issued
  identifier.
\<close>

definition consistent :: "nat list \<Rightarrow> store \<Rightarrow> bool" where
  "consistent h s \<longleftrightarrow>
     sorted_wrt (<) (h @ [nextId s]) \<and>
     sorted_wrt (<) (map todo_id (todos s)) \<and>
     set (map todo_id (todos s)) \<subseteq> set h"

text \<open>A title is blank when it is a string that \<^verbatim>\<open>trim\<close> empties.\<close>

definition blankTitle :: "todo \<Rightarrow> bool" where
  "blankTitle t = (case title t of JStr x \<Rightarrow> trim x = [] | _ \<Rightarrow> False)"

text \<open>Concrete environments and requests, for evaluating the model.\<close>

definition env1 :: env where
  "env1 = \<lparr>now = 1700000000000, random36 = js ''0.4fzyo82mvyr'',
            isoNow = js ''2023-11-14T22:13:20.000Z''\<rparr>"

definition env2 :: env where
  "env2 = \<lparr>now = 1700000000000, random36 = js ''0.4fzyo82mvk3'',
            isoNow = js ''2023-11-14T22:13:20.000Z''\<rparr>"

definition req :: "verb \<Rightarrow> target \<Rightarrow> json option \<Rightarrow> json option \<Rightarrow> request" where
  "req m t ttl cmp = \<lparr>meth = m, target = t, correlationHeader = None, payload = Body ttl cmp\<rparr>"

definition postTitle :: "string \<Rightarrow> request" where
  "postTitle t = req POST Todos (Some (JStr (js t))) None"

text \<open>Three creations and the deletion of the second record.\<close>

definition trace1 :: "(env \<times> request) list" where
  "trace1 = [(env1, postTitle ''a''), (env1, postTitle ''b''),
             (env2, req DELETE (TodoById (js ''2'')) None None), (env2, postTitle ''c'')]"

definition store1 :: store where
  "store1 = \<lparr>todos = [\<lparr>todo_id = 1, title = JStr (js ''a''), completed = JBool False,
                        createdAt = js ''2023-11-14T22:13:20.000Z''\<rparr>,
                     \<lparr>todo_id = 3, title = JStr (js ''c''), completed = JBool False,
                        createdAt = js ''2023-11-14T22:13:20.000Z''\<rparr>],
              nextId = 4\<rparr>"

text \<open>
  The body \<^verbatim>\<open>{"title":"..."}\<close> as \<^verbatim>\<open>JSON.stringify\<close> writes it for a title of ASCII
  letters, digits and spaces: twelve bytes around the title and one byte for each of its
  characters.
\<close>

definition titleBody :: "jsstring \<Rightarrow> rawBody" where
  "titleBody t = \<lparr>byteLength = 12 + length t, parsed = Some (Some (JStr t), None)\<rparr>"

text \<open>The bodies \<^verbatim>\<open>{}\<close> and \<^verbatim>\<open>{"completed":true}\<close>.\<close>

definition emptyBody :: rawBody where
  "emptyBody = \<lparr>byteLength = 2, parsed = Some (None, None)\<rparr>"

definition completedBody :: rawBody where
  "completedBody = \<lparr>byteLength = 18, parsed = Some (None, Some (JBool True))\<rparr>"

text \<open>Titles of 102389 characters: the letter \<^verbatim>\<open>a\<close> throughout, and spaces throughout.\<close>

definition longTitle :: jsstring where
  "longTitle = replicate 102389 0x61"

definition longBlank :: jsstring where
  "longBlank = replicate 102389 0x20"

definition bodyReq :: "verb \<Rightarrow> target \<Rightarrow> rawBody \<Rightarrow> request" where
  "bodyReq m t b = \<lparr>meth = m, target = t, correlationHeader = None, payload = express_json b\<rparr>"

section \<open>Arrays\<close>

lemma trim_Nil: "trim [] = []"
  by (simp add: trim_def)

lemma findIndex_None_iff: "findIndex p xs = None \<longleftrightarrow> (\<forall>x\<in>set xs. \<not> p x)"
  by (induction xs) (auto split: option.splits)

lemma findIndex_Some:
  "findIndex p xs = Some i \<Longrightarrow> i < length xs \<and> p (xs ! i)"
  by (induction xs arbitrary: i) (auto split: if_splits option.splits)

lemma find_findIndex:
  "find p xs = (case findIndex p xs of None \<Rightarrow> None | Some i \<Rightarrow> Some (xs ! i))"
  by (induction xs) (auto split: option.splits)

lemma findIndex_first:
  "i < length xs \<Longrightarrow> p (xs ! i) \<Longrightarrow> \<forall>j<i. \<not> p (xs ! j) \<Longrightarrow> findIndex p xs = Some i"
proof (induction xs arbitrary: i)
  case Nil
  then show ?case by simp
next
  case (Cons x xs)
  show ?case
  proof (cases i)
    case 0
    with Cons.prems show ?thesis by simp
  next
    case (Suc k)
    from Cons.prems Suc have "\<not> p x" by auto
    moreover have "findIndex p xs = Some k"
      using Cons.prems Suc by (intro Cons.IH) auto
    ultimately show ?thesis using Suc by simp
  qed
qed

lemma findIndex_by_id:
  assumes "distinct (map todo_id ts)" and "i < length ts"
  shows "findIndex (idMatches (Some (int (todo_id (ts ! i))))) ts = Some i"
proof (rule findIndex_first)
  show "i < length ts" by fact
  show "idMatches (Some (int (todo_id (ts ! i)))) (ts ! i)"
    by (simp add: idMatches_def)
  show "\<forall>j<i. \<not> idMatches (Some (int (todo_id (ts ! i)))) (ts ! j)"
  proof (intro allI impI)
    fix j assume "j < i"
    with assms have "map todo_id ts ! j \<noteq> map todo_id ts ! i"
      using nth_eq_iff_index_eq [of "map todo_id ts" j i] by simp
    with \<open>j < i\<close> assms(2) show "\<not> idMatches (Some (int (todo_id (ts ! i)))) (ts ! j)"
      by (simp add: idMatches_def)
  qed
qed

lemma sorted_wrt_splice1: "sorted_wrt P xs \<Longrightarrow> sorted_wrt P (splice1 i xs)"
proof (induction xs arbitrary: i)
  case Nil
  then show ?case by (simp add: splice1_def)
next
  case (Cons x xs)
  show ?case
  proof (cases i)
    case 0
    with Cons.prems show ?thesis by (simp add: splice1_def)
  next
    case (Suc k)
    have "set (splice1 k xs) \<subseteq> set xs"
      unfolding splice1_def using set_take_subset [of k xs] set_drop_subset [of "Suc k" xs] by auto
    with Cons Suc show ?thesis by (auto simp: splice1_def)
  qed
qed

lemma set_splice1: "set (splice1 i xs) \<subseteq> set xs"
  unfolding splice1_def using set_take_subset [of i xs] set_drop_subset [of "Suc i" xs] by auto

lemma map_splice1: "map f (splice1 i xs) = splice1 i (map f xs)"
  by (simp add: splice1_def take_map drop_map)

lemma splice1_distinct:
  assumes "distinct xs" and "i < length xs"
  shows "xs ! i \<notin> set (splice1 i xs)"
proof -
  have "xs = take i xs @ xs ! i # drop (Suc i) xs"
    using assms(2) by (rule id_take_nth_drop)
  with assms(1) have "distinct (take i xs @ xs ! i # drop (Suc i) xs)" by simp
  then show ?thesis by (auto simp: splice1_def)
qed

lemma sorted_lt_distinct: "sorted_wrt (<) (xs :: nat list) \<Longrightarrow> distinct xs"
  by (induction xs) auto

lemma consistent_store0: "consistent [] store0"
  by (simp add: consistent_def store0_def)

lemma consistent_below: "consistent h s \<Longrightarrow> x \<in> set h \<Longrightarrow> x < nextId s"
  by (auto simp: consistent_def sorted_wrt_append)

lemma consistent_post:
  assumes "consistent h s" and "todo_id td = nextId s"
  shows "consistent (h @ [nextId s]) \<lparr>todos = todos s @ [td], nextId = nextId s + 1\<rparr>"
proof -
  from assms(1) have below: "\<forall>x\<in>set h. x < nextId s"
    by (auto simp: consistent_def sorted_wrt_append)
  from assms(1) have sub: "set (map todo_id (todos s)) \<subseteq> set h"
    by (simp add: consistent_def)
  from assms(1) have sh: "sorted_wrt (<) h" and st: "sorted_wrt (<) (map todo_id (todos s))"
    by (auto simp: consistent_def sorted_wrt_append)
  have "sorted_wrt (<) ((h @ [nextId s]) @ [nextId s + 1])"
    using sh below by (auto simp: sorted_wrt_append)
  moreover have "sorted_wrt (<) (map todo_id (todos s @ [td]))"
    using st sub below assms(2) by (auto simp: sorted_wrt_append)
  moreover have "set (map todo_id (todos s @ [td])) \<subseteq> set (h @ [nextId s])"
    using sub assms(2) by auto
  ultimately show ?thesis by (simp add: consistent_def)
qed

lemma consistent_put:
  assumes "consistent h s" and "i < length (todos s)" and "todo_id t' = todo_id (todos s ! i)"
  shows "consistent h (s\<lparr>todos := (todos s)[i := t']\<rparr>)"
proof -
  have "map todo_id ((todos s)[i := t']) = (map todo_id (todos s))[i := todo_id (todos s ! i)]"
    using assms(3) by (simp add: map_update)
  also have "\<dots> = map todo_id (todos s)"
    using assms(2) by (simp add: list_update_same_conv)
  finally show ?thesis using assms(1) by (simp add: consistent_def)
qed

lemma consistent_delete:
  assumes "consistent h s"
  shows "consistent h (s\<lparr>todos := splice1 i (todos s)\<rparr>)"
proof -
  have "sorted_wrt (<) (map todo_id (splice1 i (todos s)))"
    using assms by (simp add: consistent_def map_splice1 sorted_wrt_splice1)
  moreover have "set (map todo_id (splice1 i (todos s))) \<subseteq> set h"
    using assms set_splice1 [of i "todos s"] by (auto simp: consistent_def)
  ultimately show ?thesis using assms by (simp add: consistent_def)
qed

section \<open>The invariant holds in every reachable store\<close>

lemma issued_Nil: "issued [] = []"
  by (simp add: issued_def map_filter_simps)

lemma issued_Cons:
  "issued (r # rs) = (case createdId r of None \<Rightarrow> issued rs | Some i \<Rightarrow> i # issued rs)"
  by (simp add: issued_def map_filter_simps split: option.splits)

lemma post_todos_cases:
  assumes "post_todos stamp ttl s = (out, s')"
  shows "(s' = s \<and> (out = titleRequired \<or> out = Thrown)) \<or>
         (\<exists>td. todo_id td = nextId s \<and> out = Sent 201 (TodoBody td) \<and>
               s' = \<lparr>todos = todos s @ [td], nextId = nextId s + 1\<rparr>)"
  using assms
  by (auto simp: post_todos_def Let_def split: option.splits if_splits json.splits)

lemma put_todo_cases:
  assumes "put_todo p ttl cmp s = (out, s')"
  shows "(s' = s \<and> out = notFound) \<or>
         (\<exists>i t'. i < length (todos s) \<and> todo_id t' = todo_id (todos s ! i) \<and>
                 out = Sent 200 (TodoBody t') \<and> s' = s\<lparr>todos := (todos s)[i := t']\<rparr>)"
  using assms
  by (auto simp: put_todo_def Let_def dest: findIndex_Some split: option.splits)

lemma delete_todo_cases:
  assumes "delete_todo p s = (out, s')"
  shows "(s' = s \<and> out = notFound) \<or>
         (\<exists>i b. out = Sent 200 b \<and> s' = s\<lparr>todos := splice1 i (todos s)\<rparr>)"
  using assms
  by (auto simp: delete_todo_def split: option.splits)

lemma get_todo_cases:
  assumes "get_todo p s = (out, s')"
  shows "s' = s \<and> (\<exists>st b. out = Sent st b \<and> st \<noteq> 201)"
  using assms
  by (auto simp: get_todo_def notFound_def split: option.splits)

lemma consistent_route:
  assumes "consistent h s" and "route e m t ttl cmp s = (out, s')"
  shows "(\<exists>td. out = Sent 201 (TodoBody td) \<and> consistent (h @ [todo_id td]) s') \<or>
         ((out = Thrown \<or> (\<exists>st b. out = Sent st b \<and> st \<noteq> 201)) \<and> consistent h s')"
proof (cases "(e, m, t, ttl, cmp, s)" rule: route.cases)
  case (5 e' ttl' cmp' s0)
  with assms(2) have "post_todos (isoNow e) ttl s = (out, s')" by simp
  from post_todos_cases [OF this] assms(1) show ?thesis
    by (auto simp: titleRequired_def dest: consistent_post)
next
  case (6 e' p ttl' cmp' s0)
  with assms(2) have "put_todo p ttl cmp s = (out, s')" by simp
  from put_todo_cases [OF this] assms(1) show ?thesis
    by (auto simp: notFound_def dest: consistent_put)
next
  case (7 e' p ttl' cmp' s0)
  with assms(2) have "delete_todo p s = (out, s')" by simp
  from delete_todo_cases [OF this] assms(1) show ?thesis
    by (auto simp: notFound_def dest: consistent_delete)
next
  case (4 e' p ttl' cmp' s0)
  with assms(2) have "get_todo p s = (out, s')" by simp
  from get_todo_cases [OF this] assms(1) show ?thesis by auto
qed (use assms in \<open>auto simp: get_todos_def\<close>)

lemma consistent_app:
  assumes "consistent h s"
  shows "consistent (h @ issued [fst (app e r s)]) (snd (app e r s))"
proof (cases "payload r")
  case Malformed
  with assms show ?thesis
    by (simp add: app_def issued_Cons issued_Nil createdId_def)
next
  case (Body ttl cmp)
  obtain out s' where rt: "route e (meth r) (target r) ttl cmp s = (out, s')"
    by (cases "route e (meth r) (target r) ttl cmp s") 
  from consistent_route [OF assms rt] show ?thesis
    using Body rt
    by (auto simp: app_def issued_Cons issued_Nil createdId_def)
qed

lemma run_Cons:
  "run (er # tr) s =
     (fst (app (fst er) (snd er) s) # fst (run tr (snd (app (fst er) (snd er) s))),
      snd (run tr (snd (app (fst er) (snd er) s))))"
  by (simp add: Let_def split: prod.splits)

lemma issued_append: "issued (xs @ ys) = issued xs @ issued ys"
  by (simp add: issued_def map_filter_def)

lemma consistent_run:
  "consistent h s \<Longrightarrow> consistent (h @ issued (fst (run tr s))) (snd (run tr s))"
proof (induction tr arbitrary: h s)
  case Nil
  then show ?case by (simp add: issued_Nil)
next
  case (Cons er tr)
  let ?resp = "fst (app (fst er) (snd er) s)" and ?s1 = "snd (app (fst er) (snd er) s)"
  from Cons.prems have "consistent (h @ issued [?resp]) ?s1"
    by (rule consistent_app)
  then have "consistent ((h @ issued [?resp]) @ issued (fst (run tr ?s1))) (snd (run tr ?s1))"
    by (rule Cons.IH)
  moreover have "issued (?resp # fst (run tr ?s1)) = issued [?resp] @ issued (fst (run tr ?s1))"
    using issued_append [of "[?resp]" "fst (run tr ?s1)"] by simp
  ultimately show ?case by (simp add: run_Cons del: run.simps)
qed

lemma consistent_reachable:
  "consistent (issued (fst (run tr store0))) (snd (run tr store0))"
  using consistent_run [OF consistent_store0, of tr] by simp

section \<open>Evaluation on concrete inputs\<close>

lemma decimal_small: "n < 10 \<Longrightarrow> decimal n = [digitChar n]"
  by (simp add: decimal.simps)

lemma decimal_big: "\<not> n < 10 \<Longrightarrow> decimal n = decimal (n div 10) @ [digitChar (n mod 10)]"
  by (subst decimal.simps) simp

lemmas eval_step =
  app_def Let_def req_def postTitle_def env1_def env2_def post_todos_def put_todo_def
  delete_todo_def get_todo_def get_todos_def notFound_def titleRequired_def internalError_def
  correlationId_def generatedId_def substr_def decimal_small decimal_big digitChar_def js_def
  trim_def isWhiteSpace_def parseInt_def stripSign_def stripPrefix_def isRadixDigit_def
  digitValue_def digitsValue_def idMatches_def splice1_def blankTitle_def

lemmas eval_defs = eval_step store0_def createdId_def issued_def map_filter_simps

lemma run_trace1: "snd (run trace1 store0) = store1"
  by (simp add: trace1_def store1_def eval_defs)

lemma issued_trace1: "issued (fst (run trace1 store0)) = [1, 2, 3]"
  by (simp add: trace1_def eval_defs)

lemmas eval_store1 = run_trace1 issued_trace1 store1_def

section \<open>Bodies that the JSON middleware accepts or refuses\<close>

lemma express_json_accepts:
  "byteLength b \<le> jsonLimit \<Longrightarrow> parsed b = Some (ttl, cmp) \<Longrightarrow> express_json b = Body ttl cmp"
  by (simp add: express_json_def)

lemma express_json_refuses:
  "jsonLimit < byteLength b \<Longrightarrow> express_json b = Malformed"
  by (simp add: express_json_def)

lemma app_refused:
  "payload r = Malformed \<Longrightarrow>
   app e r s =
     (\<lparr>status = 500, body = ErrorBody (js ''Internal server error''), correlation = None\<rparr>, s)"
  by (simp add: app_def internalError_def)

lemma trim_replicate: "trim (replicate n c) = (if isWhiteSpace c then [] else replicate n c)"
  by (simp add: trim_def)

lemma longTitle_trim: "trim longTitle = longTitle"
  unfolding longTitle_def by (simp add: trim_replicate isWhiteSpace_def)

lemma longTitle_nonempty: "longTitle \<noteq> []"
  by (simp add: longTitle_def)

lemma longBlank_trim: "trim longBlank = []"
  unfolding longBlank_def by (simp add: trim_replicate isWhiteSpace_def)

lemma long_body_refused:
  "express_json (titleBody longTitle) = Malformed" "express_json (titleBody longBlank) = Malformed"
  by (simp_all add: express_json_def titleBody_def jsonLimit_def longTitle_def longBlank_def)

lemmas eval_body =
  bodyReq_def express_json_def titleBody_def emptyBody_def completedBody_def jsonLimit_def

section \<open>Creation\<close>

lemma trim_nonempty: "trim t \<noteq> [] \<Longrightarrow> t \<noteq> []"
  by (auto simp: trim_Nil)

text \<open>
  Claim C2, as the code has it. A title \<open>t\<close> that is not empty after trimming, in a body
  that \<^verbatim>\<open>express.json()\<close> accepts (JSON text of at most 102400 bytes): in the store any
  sequence of requests has led to, \<^verbatim>\<open>POST /todos\<close> answers 201 with a record whose title
  is \<open>trim t\<close>, whose \<^verbatim>\<open>completed\<close> is \<^verbatim>\<open>false\<close> and whose identifier is strictly greater
  than every identifier issued before; the record is appended to the store.
\<close>

theorem post_valid_title_creates:
  assumes "trim t \<noteq> []"
    and "byteLength b \<le> jsonLimit" and "parsed b = Some (Some (JStr t), cmp)"
  shows "let s = snd (run tr store0);
             td = \<lparr>todo_id = nextId s, title = JStr (trim t), completed = JBool False,
                   createdAt = isoNow e\<rparr>
         in app e \<lparr>meth = POST, target = Todos, correlationHeader = h,
                    payload = express_json b\<rparr> s =
              (\<lparr>status = 201, body = TodoBody td,
                 correlation = Some (correlationId h (now e) (random36 e))\<rparr>,
               \<lparr>todos = todos s @ [td], nextId = nextId s + 1\<rparr>) \<and>
            (\<forall>i\<in>set (issued (fst (run tr store0))). i < todo_id td)"
proof -
  from assms(1) have "t \<noteq> []" by (rule trim_nonempty)
  moreover have "express_json b = Body (Some (JStr t)) cmp"
    using assms(2,3) by (rule express_json_accepts)
  ultimately show ?thesis
    using assms(1) consistent_below [OF consistent_reachable [of tr]]
    by (simp add: app_def post_todos_def Let_def)
qed

theorem post_valid_title_creates_witness:
  "trim (js ''  Trimmed  '') \<noteq> [] \<and>
   byteLength (titleBody (js ''  Trimmed  '')) = 23 \<and>
   parsed (titleBody (js ''  Trimmed  '')) = Some (Some (JStr (js ''  Trimmed  '')), None) \<and>
   app env2 (bodyReq POST Todos (titleBody (js ''  Trimmed  ''))) (snd (run trace1 store0)) =
     (\<lparr>status = 201,
        body = TodoBody \<lparr>todo_id = 4, title = JStr (js ''Trimmed''), completed = JBool False,
                         createdAt = js ''2023-11-14T22:13:20.000Z''\<rparr>,
        correlation = Some (js ''1700000000000-4fzyo82mv'')\<rparr>,
      \<lparr>todos = todos store1 @
                [\<lparr>todo_id = 4, title = JStr (js ''Trimmed''), completed = JBool False,
                   createdAt = js ''2023-11-14T22:13:20.000Z''\<rparr>], nextId = 5\<rparr>) \<and>
   issued (fst (run trace1 store0)) = [1, 2, 3]"
  using post_valid_title_creates
      [of "js ''  Trimmed  ''" "titleBody (js ''  Trimmed  '')" None trace1 env2 None]
  by (simp add: eval_store1 eval_body eval_step)

text \<open>
  Claim C2 as stated has no condition on the body. The title of 102389 letters is not
  empty after trimming; the body \<^verbatim>\<open>{"title":"a...a"}\<close> that carries it has 102401 bytes,
  \<^verbatim>\<open>express.json()\<close> refuses it, and \<^verbatim>\<open>POST /todos\<close> answers 500 and stores nothing.
\<close>

theorem post_long_title_counterexample:
  "trim longTitle \<noteq> [] \<and>
   length longTitle = 102389 \<and>
   byteLength (titleBody longTitle) = 102401 \<and>
   parsed (titleBody longTitle) = Some (Some (JStr longTitle), None) \<and>
   app env1 (bodyReq POST Todos (titleBody longTitle)) store0 =
     (\<lparr>status = 500, body = ErrorBody (js ''Internal server error''), correlation = None\<rparr>,
      store0)"
proof -
  have "app env1 (bodyReq POST Todos (titleBody longTitle)) store0 =
     (\<lparr>status = 500, body = ErrorBody (js ''Internal server error''), correlation = None\<rparr>,
      store0)"
    by (rule app_refused) (simp add: bodyReq_def long_body_refused)
  moreover have "length longTitle = 102389"
    by (simp add: longTitle_def)
  ultimately show ?thesis
    by (simp add: longTitle_trim longTitle_nonempty titleBody_def)
qed

text \<open>
  Claim C3, as the code has it. In every store, \<^verbatim>\<open>POST /todos\<close> with a body that
  \<^verbatim>\<open>express.json()\<close> accepts (JSON text of at most 102400 bytes) and that has no title, or
  a title that is empty after trimming, answers 400 with \<^verbatim>\<open>{error: "Title is required"}\<close>,
  and the store (the records and the counter) stays as it was.
\<close>

theorem post_blank_title_rejected:
  assumes "ttl = None \<or> (\<exists>t. ttl = Some (JStr t) \<and> trim t = [])"
    and "byteLength b \<le> jsonLimit" and "parsed b = Some (ttl, cmp)"
  shows "app e \<lparr>meth = POST, target = Todos, correlationHeader = h, payload = express_json b\<rparr> s =
           (\<lparr>status = 400, body = ErrorBody (js ''Title is required''),
              correlation = Some (correlationId h (now e) (random36 e))\<rparr>, s)"
proof -
  have "express_json b = Body ttl cmp"
    using assms(2,3) by (rule express_json_accepts)
  with assms(1) show ?thesis
    by (auto simp: app_def post_todos_def titleRequired_def)
qed

theorem post_blank_title_rejected_witness:
  "byteLength emptyBody = 2 \<and> parsed emptyBody = Some (None, None) \<and>
   app env1 (bodyReq POST Todos emptyBody) store1 =
     (\<lparr>status = 400, body = ErrorBody (js ''Title is required''),
        correlation = Some (js ''1700000000000-4fzyo82mv'')\<rparr>, store1) \<and>
   trim (js '' '') = [] \<and> byteLength (titleBody (js '' '')) = 13 \<and>
   app env1 (bodyReq POST Todos (titleBody (js '' ''))) store1 =
     (\<lparr>status = 400, body = ErrorBody (js ''Title is required''),
        correlation = Some (js ''1700000000000-4fzyo82mv'')\<rparr>, store1) \<and>
   byteLength (titleBody (js [])) = 12 \<and>
   app env1 (bodyReq POST Todos (titleBody (js []))) store1 =
     (\<lparr>status = 400, body = ErrorBody (js ''Title is required''),
        correlation = Some (js ''1700000000000-4fzyo82mv'')\<rparr>, store1)"
  using post_blank_title_rejected [of None emptyBody None env1 None store1]
    post_blank_title_rejected [of "Some (JStr (js '' ''))" "titleBody (js '' '')" None env1 None store1]
    post_blank_title_rejected [of "Some (JStr (js []))" "titleBody (js [])" None env1 None store1]
  by (simp add: eval_body eval_step)

text \<open>
  Claim C3 as stated has no condition on the body. The title of 102389 spaces is empty
  after trimming; the body that carries it has 102401 bytes, \<^verbatim>\<open>express.json()\<close> refuses it,
  and \<^verbatim>\<open>POST /todos\<close> answers 500 with \<^verbatim>\<open>{error: "Internal server error"}\<close>, not 400.
\<close>

theorem post_long_blank_title_counterexample:
  "trim longBlank = [] \<and>
   length longBlank = 102389 \<and>
   byteLength (titleBody longBlank) = 102401 \<and>
   parsed (titleBody longBlank) = Some (Some (JStr longBlank), None) \<and>
   app env1 (bodyReq POST Todos (titleBody longBlank)) store1 =
     (\<lparr>status = 500, body = ErrorBody (js ''Internal server error''), correlation = None\<rparr>,
      store1)"
proof -
  have "app env1 (bodyReq POST Todos (titleBody longBlank)) store1 =
     (\<lparr>status = 500, body = ErrorBody (js ''Internal server error''), correlation = None\<rparr>,
      store1)"
    by (rule app_refused) (simp add: bodyReq_def long_body_refused)
  moreover have "length longBlank = 102389"
    by (simp add: longBlank_def)
  ultimately show ?thesis
    by (simp add: longBlank_trim titleBody_def)
qed

section \<open>Unknown identifiers\<close>

lemma find_no_match: "\<forall>x\<in>set xs. \<not> p x \<Longrightarrow> find p xs = None"
  by (simp add: find_None_iff)

lemma app_item_not_found:
  assumes "\<forall>t\<in>set (todos s). \<not> idMatches (parseInt p) t" and "m = GET \<or> m = PUT \<or> m = DELETE"
  shows "app e \<lparr>meth = m, target = TodoById p, correlationHeader = h, payload = Body ttl cmp\<rparr> s =
           (\<lparr>status = 404, body = ErrorBody (js ''Todo not found''),
              correlation = Some (correlationId h (now e) (random36 e))\<rparr>, s)"
proof -
  from assms(1) have "find (idMatches (parseInt p)) (todos s) = None"
    by (rule find_no_match)
  moreover from assms(1) have "findIndex (idMatches (parseInt p)) (todos s) = None"
    by (simp add: findIndex_None_iff)
  ultimately show ?thesis
    using assms(2)
    by (auto simp: app_def get_todo_def put_todo_def delete_todo_def notFound_def)
qed

text \<open>
  Claim C5. When the path segment parses to a number that no record of the store has as
  its identifier, \<^verbatim>\<open>GET\<close>, \<^verbatim>\<open>PUT\<close> and \<^verbatim>\<open>DELETE\<close> on \<^verbatim>\<open>/todos/:id\<close> each answer 404 with
  \<^verbatim>\<open>{error: "Todo not found"}\<close> and leave the store unchanged.
\<close>

theorem unknown_id_not_found:
  assumes "parseInt p = Some n" and "\<forall>t\<in>set (todos s). int (todo_id t) \<noteq> n"
    and "m = GET \<or> m = PUT \<or> m = DELETE"
  shows "app e \<lparr>meth = m, target = TodoById p, correlationHeader = h, payload = Body ttl cmp\<rparr> s =
           (\<lparr>status = 404, body = ErrorBody (js ''Todo not found''),
              correlation = Some (correlationId h (now e) (random36 e))\<rparr>, s)"
proof (rule app_item_not_found)
  show "\<forall>t\<in>set (todos s). \<not> idMatches (parseInt p) t"
    using assms(1,2) by (simp add: idMatches_def)
  show "m = GET \<or> m = PUT \<or> m = DELETE" by fact
qed

theorem unknown_id_not_found_witness:
  "parseInt (js ''99999'') = Some 99999 \<and>
   map todo_id (todos store1) = [1, 3] \<and>
   app env1 (req GET (TodoById (js ''99999'')) None None) store1 =
     (\<lparr>status = 404, body = ErrorBody (js ''Todo not found''),
        correlation = Some (js ''1700000000000-4fzyo82mv'')\<rparr>, store1) \<and>
   app env1 (req PUT (TodoById (js ''99999'')) None (Some (JBool True))) store1 =
     (\<lparr>status = 404, body = ErrorBody (js ''Todo not found''),
        correlation = Some (js ''1700000000000-4fzyo82mv'')\<rparr>, store1) \<and>
   app env1 (req DELETE (TodoById (js ''99999'')) None None) store1 =
     (\<lparr>status = 404, body = ErrorBody (js ''Todo not found''),
        correlation = Some (js ''1700000000000-4fzyo82mv'')\<rparr>, store1)"
  using unknown_id_not_found [of "js ''99999''" 99999 store1 GET env1 None None None]
    unknown_id_not_found [of "js ''99999''" 99999 store1 PUT env1 None None "Some (JBool True)"]
    unknown_id_not_found [of "js ''99999''" 99999 store1 DELETE env1 None None None]
  by (simp add: store1_def eval_step)

text \<open>
  Claim C10. When \<^verbatim>\<open>parseInt\<close> of the path segment is \<^verbatim>\<open>NaN\<close>, \<^verbatim>\<open>GET\<close>, \<^verbatim>\<open>PUT\<close> and
  \<^verbatim>\<open>DELETE\<close> on \<^verbatim>\<open>/todos/:id\<close> each answer 404 with \<^verbatim>\<open>{error: "Todo not found"}\<close> and
  leave the store unchanged, whatever the store holds.
\<close>

theorem non_numeric_id_not_found:
  assumes "parseInt p = None" and "m = GET \<or> m = PUT \<or> m = DELETE"
  shows "app e \<lparr>meth = m, target = TodoById p, correlationHeader = h, payload = Body ttl cmp\<rparr> s =
           (\<lparr>status = 404, body = ErrorBody (js ''Todo not found''),
              correlation = Some (correlationId h (now e) (random36 e))\<rparr>, s)"
proof (rule app_item_not_found)
  show "\<forall>t\<in>set (todos s). \<not> idMatches (parseInt p) t"
    using assms(1) by (simp add: idMatches_def)
  show "m = GET \<or> m = PUT \<or> m = DELETE" by fact
qed

theorem non_numeric_id_not_found_witness:
  "parseInt (js ''abc'') = None \<and>
   app env1 (req GET (TodoById (js ''abc'')) None None) store1 =
     (\<lparr>status = 404, body = ErrorBody (js ''Todo not found''),
        correlation = Some (js ''1700000000000-4fzyo82mv'')\<rparr>, store1) \<and>
   app env1 (req PUT (TodoById (js ''abc'')) (Some (JStr (js ''x''))) None) store1 =
     (\<lparr>status = 404, body = ErrorBody (js ''Todo not found''),
        correlation = Some (js ''1700000000000-4fzyo82mv'')\<rparr>, store1) \<and>
   app env1 (req DELETE (TodoById (js ''abc'')) None None) store1 =
     (\<lparr>status = 404, body = ErrorBody (js ''Todo not found''),
        correlation = Some (js ''1700000000000-4fzyo82mv'')\<rparr>, store1)"
  using non_numeric_id_not_found [of "js ''abc''" GET env1 None None None store1]
    non_numeric_id_not_found [of "js ''abc''" PUT env1 None "Some (JStr (js ''x''))" None store1]
    non_numeric_id_not_found [of "js ''abc''" DELETE env1 None None None store1]
  by (simp add: eval_step)

section \<open>Identifiers and order\<close>

text \<open>
  Claim C7. Over every sequence of requests from the empty store, the identifiers that
  creations issue increase strictly in the order of creation, so each differs from every
  identifier issued before, whether its record was deleted since or not; the records of
  the store carry pairwise different identifiers, all of them issued ones.
\<close>

theorem ids_never_reused:
  "sorted_wrt (<) (issued (fst (run tr store0))) \<and>
   distinct (issued (fst (run tr store0))) \<and>
   distinct (map todo_id (todos (snd (run tr store0)))) \<and>
   set (map todo_id (todos (snd (run tr store0)))) \<subseteq> set (issued (fst (run tr store0)))"
proof -
  have c: "consistent (issued (fst (run tr store0))) (snd (run tr store0))"
    by (rule consistent_reachable)
  then have "sorted_wrt (<) (issued (fst (run tr store0)))"
    by (simp add: consistent_def sorted_wrt_append)
  moreover from c have "sorted_wrt (<) (map todo_id (todos (snd (run tr store0))))"
    by (simp add: consistent_def)
  moreover from c have "set (map todo_id (todos (snd (run tr store0)))) \<subseteq> set (issued (fst (run tr store0)))"
    by (simp add: consistent_def)
  ultimately show ?thesis by (simp add: sorted_lt_distinct)
qed

theorem ids_never_reused_witness:
  "issued (fst (run trace1 store0)) = [1, 2, 3] \<and>
   map todo_id (todos (snd (run trace1 store0))) = [1, 3]"
  using ids_never_reused [of trace1]
  by (simp add: eval_store1)

lemma store_order:
  "map todo_id (todos (snd (run tr store0))) =
     filter (\<lambda>i. i \<in> set (map todo_id (todos (snd (run tr store0))))) (issued (fst (run tr store0)))"
proof -
  let ?ids = "map todo_id (todos (snd (run tr store0)))" and ?h = "issued (fst (run tr store0))"
  have c: "consistent ?h (snd (run tr store0))"
    by (rule consistent_reachable)
  then have "sorted_wrt (<) ?h"
    by (simp add: consistent_def sorted_wrt_append)
  then have "sorted_wrt (<) (filter (\<lambda>i. i \<in> set ?ids) ?h)"
    by (rule sorted_wrt_filter)
  moreover from c have "sorted_wrt (<) ?ids"
    by (simp add: consistent_def)
  moreover from c have "set (filter (\<lambda>i. i \<in> set ?ids) ?h) = set ?ids"
    by (auto simp: consistent_def)
  ultimately show ?thesis
    by (metis strict_sorted_equal)
qed

text \<open>
  Claim C8. In every store \<^verbatim>\<open>GET /todos\<close> answers 200 with all the records and a count
  equal to their number. In a store that a sequence of requests has led to, the records
  stand in the order of their creation: their identifiers are the issued identifiers, in
  the order of issue, without those of the records deleted since.
\<close>

theorem get_todos_lists_in_creation_order:
  "app e \<lparr>meth = GET, target = Todos, correlationHeader = h, payload = Body ttl cmp\<rparr> s =
     (\<lparr>status = 200, body = TodosBody (todos s) (length (todos s)),
        correlation = Some (correlationId h (now e) (random36 e))\<rparr>, s) \<and>
   map todo_id (todos (snd (run tr store0))) =
     filter (\<lambda>i. i \<in> set (map todo_id (todos (snd (run tr store0))))) (issued (fst (run tr store0)))"
proof (rule conjI)
  show "app e \<lparr>meth = GET, target = Todos, correlationHeader = h, payload = Body ttl cmp\<rparr> s =
     (\<lparr>status = 200, body = TodosBody (todos s) (length (todos s)),
        correlation = Some (correlationId h (now e) (random36 e))\<rparr>, s)"
    by (simp add: app_def get_todos_def)
  show "map todo_id (todos (snd (run tr store0))) =
     filter (\<lambda>i. i \<in> set (map todo_id (todos (snd (run tr store0))))) (issued (fst (run tr store0)))"
    by (rule store_order)
qed

theorem get_todos_lists_in_creation_order_witness:
  "issued (fst (run trace1 store0)) = [1, 2, 3] \<and>
   app env1 (req GET Todos None None) (snd (run trace1 store0)) =
     (\<lparr>status = 200, body = TodosBody (todos store1) 2,
        correlation = Some (js ''1700000000000-4fzyo82mv'')\<rparr>, store1) \<and>
   map todo_id (todos store1) = [1, 3]"
  using get_todos_lists_in_creation_order [of env1 None None None "snd (run trace1 store0)" trace1]
  by (simp add: eval_store1 eval_step)

section \<open>Update and deletion\<close>

lemma reachable_distinct: "distinct (map todo_id (todos (snd (run tr store0))))"
proof -
  have "consistent (issued (fst (run tr store0))) (snd (run tr store0))"
    by (rule consistent_reachable)
  then have "sorted_wrt (<) (map todo_id (todos (snd (run tr store0))))"
    by (simp add: consistent_def)
  then show ?thesis by (rule sorted_lt_distinct)
qed

text \<open>
  Claim C4, as the code has it. For a record present in a store that a sequence of
  requests has led to, \<^verbatim>\<open>PUT /todos/:id\<close> with a body that \<^verbatim>\<open>express.json()\<close> accepts (JSON
  text of at most 102400 bytes) answers 200 with the record in which exactly the fields
  the body provides are replaced: an absent \<^verbatim>\<open>title\<close> leaves the title, an absent
  \<^verbatim>\<open>completed\<close> leaves the completion flag, and the identifier and \<^verbatim>\<open>createdAt\<close> stay in
  every case. The store changes at that record only.
\<close>

theorem put_updates_only_given_fields:
  assumes "i < length (todos (snd (run tr store0)))"
    and "parseInt p = Some (int (todo_id (todos (snd (run tr store0)) ! i)))"
    and "byteLength b \<le> jsonLimit" and "parsed b = Some (ttl, cmp)"
  shows "let s = snd (run tr store0);
             t = todos s ! i;
             t' = \<lparr>todo_id = todo_id t,
                   title = (case ttl of None \<Rightarrow> title t | Some v \<Rightarrow> v),
                   completed = (case cmp of None \<Rightarrow> completed t | Some v \<Rightarrow> v),
                   createdAt = createdAt t\<rparr>
         in app e \<lparr>meth = PUT, target = TodoById p, correlationHeader = h,
                    payload = express_json b\<rparr> s =
              (\<lparr>status = 200, body = TodoBody t',
                 correlation = Some (correlationId h (now e) (random36 e))\<rparr>,
               s\<lparr>todos := (todos s)[i := t']\<rparr>)"
proof -
  let ?s = "snd (run tr store0)"
  have "findIndex (idMatches (parseInt p)) (todos ?s) = Some i"
    using findIndex_by_id [OF reachable_distinct assms(1)] assms(2) by simp
  moreover have "express_json b = Body ttl cmp"
    using assms(3,4) by (rule express_json_accepts)
  ultimately show ?thesis
    by (cases "todos ?s ! i") (simp add: app_def put_todo_def Let_def split: option.splits)
qed

theorem put_updates_only_given_fields_witness:
  "1 < length (todos (snd (run trace1 store0))) \<and>
   parseInt (js ''3'') = Some 3 \<and> todo_id (todos (snd (run trace1 store0)) ! 1) = 3 \<and>
   byteLength completedBody = 18 \<and> parsed completedBody = Some (None, Some (JBool True)) \<and>
   app env1 (bodyReq PUT (TodoById (js ''3'')) completedBody) (snd (run trace1 store0)) =
     (\<lparr>status = 200,
        body = TodoBody \<lparr>todo_id = 3, title = JStr (js ''c''), completed = JBool True,
                         createdAt = js ''2023-11-14T22:13:20.000Z''\<rparr>,
        correlation = Some (js ''1700000000000-4fzyo82mv'')\<rparr>,
      \<lparr>todos = [todos store1 ! 0,
                 \<lparr>todo_id = 3, title = JStr (js ''c''), completed = JBool True,
                    createdAt = js ''2023-11-14T22:13:20.000Z''\<rparr>], nextId = 4\<rparr>) \<and>
   byteLength (titleBody (js ''d'')) = 13 \<and>
   app env1 (bodyReq PUT (TodoById (js ''3'')) (titleBody (js ''d''))) (snd (run trace1 store0)) =
     (\<lparr>status = 200,
        body = TodoBody \<lparr>todo_id = 3, title = JStr (js ''d''), completed = JBool False,
                         createdAt = js ''2023-11-14T22:13:20.000Z''\<rparr>,
        correlation = Some (js ''1700000000000-4fzyo82mv'')\<rparr>,
      \<lparr>todos = [todos store1 ! 0,
                 \<lparr>todo_id = 3, title = JStr (js ''d''), completed = JBool False,
                    createdAt = js ''2023-11-14T22:13:20.000Z''\<rparr>], nextId = 4\<rparr>)"
  using put_updates_only_given_fields
      [of 1 trace1 "js ''3''" completedBody None "Some (JBool True)" env1 None]
    put_updates_only_given_fields
      [of 1 trace1 "js ''3''" "titleBody (js ''d'')" "Some (JStr (js ''d''))" None env1 None]
  by (simp add: eval_store1 eval_body eval_step)

text \<open>
  Claim C4 as stated has no condition on the body. Record 3 is in the store and the body
  provides a title, the 102389 letters; the body has 102401 bytes, \<^verbatim>\<open>express.json()\<close>
  refuses it, and \<^verbatim>\<open>PUT /todos/3\<close> answers 500 and leaves the title of the record as it
  was.
\<close>

theorem put_long_title_counterexample:
  "parseInt (js ''3'') = Some 3 \<and>
   map todo_id (todos (snd (run trace1 store0))) = [1, 3] \<and>
   byteLength (titleBody longTitle) = 102401 \<and>
   parsed (titleBody longTitle) = Some (Some (JStr longTitle), None) \<and>
   app env1 (bodyReq PUT (TodoById (js ''3'')) (titleBody longTitle)) (snd (run trace1 store0)) =
     (\<lparr>status = 500, body = ErrorBody (js ''Internal server error''), correlation = None\<rparr>,
      snd (run trace1 store0)) \<and>
   title (todos (snd (run trace1 store0)) ! 1) = JStr (js ''c'')"
proof -
  have "app env1 (bodyReq PUT (TodoById (js ''3'')) (titleBody longTitle)) (snd (run trace1 store0)) =
     (\<lparr>status = 500, body = ErrorBody (js ''Internal server error''), correlation = None\<rparr>,
      snd (run trace1 store0))"
    by (rule app_refused) (simp add: bodyReq_def long_body_refused)
  moreover have "length longTitle = 102389"
    by (simp add: longTitle_def)
  moreover have "parseInt (js ''3'') = Some 3"
    by (simp add: eval_step)
  ultimately show ?thesis
    by (simp add: eval_store1 titleBody_def)
qed

text \<open>
  Claim C6. For a record present in a store that a sequence of requests has led to,
  \<^verbatim>\<open>DELETE /todos/:id\<close> answers 200 with the record in the body and takes it out of the
  array; no record of the new store has its identifier, and \<^verbatim>\<open>GET /todos/:id\<close> on the same
  path then answers 404.
\<close>

theorem delete_removes_record:
  assumes "i < length (todos (snd (run tr store0)))"
    and "parseInt p = Some (int (todo_id (todos (snd (run tr store0)) ! i)))"
  shows "let s = snd (run tr store0);
             t = todos s ! i;
             s' = s\<lparr>todos := splice1 i (todos s)\<rparr>
         in app e \<lparr>meth = DELETE, target = TodoById p, correlationHeader = h,
                    payload = Body ttl cmp\<rparr> s =
              (\<lparr>status = 200, body = DeletedBody (js ''Todo deleted successfully'') t,
                 correlation = Some (correlationId h (now e) (random36 e))\<rparr>, s') \<and>
            t \<notin> set (todos s') \<and>
            todo_id t \<notin> set (map todo_id (todos s')) \<and>
            app e' \<lparr>meth = GET, target = TodoById p, correlationHeader = h',
                     payload = Body ttl' cmp'\<rparr> s' =
              (\<lparr>status = 404, body = ErrorBody (js ''Todo not found''),
                 correlation = Some (correlationId h' (now e') (random36 e'))\<rparr>, s')"
proof -
  let ?s = "snd (run tr store0)"
  let ?t = "todos ?s ! i"
  let ?s' = "?s\<lparr>todos := splice1 i (todos ?s)\<rparr>"
  have d: "distinct (map todo_id (todos ?s))"
    by (rule reachable_distinct)
  have idx: "findIndex (idMatches (parseInt p)) (todos ?s) = Some i"
    using findIndex_by_id [OF d assms(1)] assms(2) by simp
  have gone: "todo_id ?t \<notin> set (map todo_id (todos ?s'))"
    using splice1_distinct [OF d, of i] assms(1) by (simp add: map_splice1)
  then have gone': "?t \<notin> set (todos ?s')" by auto
  from gone have "\<forall>x\<in>set (todos ?s'). \<not> idMatches (parseInt p) x"
    using assms(2) by (force simp: idMatches_def image_iff)
  then have "find (idMatches (parseInt p)) (todos ?s') = None"
    by (rule find_no_match)
  then have get: "app e' \<lparr>meth = GET, target = TodoById p, correlationHeader = h',
                     payload = Body ttl' cmp'\<rparr> ?s' =
              (\<lparr>status = 404, body = ErrorBody (js ''Todo not found''),
                 correlation = Some (correlationId h' (now e') (random36 e'))\<rparr>, ?s')"
    by (simp add: app_def get_todo_def notFound_def)
  have del: "app e \<lparr>meth = DELETE, target = TodoById p, correlationHeader = h,
                    payload = Body ttl cmp\<rparr> ?s =
              (\<lparr>status = 200, body = DeletedBody (js ''Todo deleted successfully'') ?t,
                 correlation = Some (correlationId h (now e) (random36 e))\<rparr>, ?s')"
    using idx by (simp add: app_def delete_todo_def)
  from del gone gone' get show ?thesis
    unfolding Let_def by (intro conjI)
qed

theorem delete_removes_record_witness:
  "0 < length (todos (snd (run trace1 store0))) \<and>
   parseInt (js ''1'') = Some 1 \<and> todo_id (todos (snd (run trace1 store0)) ! 0) = 1 \<and>
   app env1 (req DELETE (TodoById (js ''1'')) None None) (snd (run trace1 store0)) =
     (\<lparr>status = 200,
        body = DeletedBody (js ''Todo deleted successfully'') (todos store1 ! 0),
        correlation = Some (js ''1700000000000-4fzyo82mv'')\<rparr>,
      \<lparr>todos = [todos store1 ! 1], nextId = 4\<rparr>) \<and>
   app env2 (req GET (TodoById (js ''1'')) None None) \<lparr>todos = [todos store1 ! 1], nextId = 4\<rparr> =
     (\<lparr>status = 404, body = ErrorBody (js ''Todo not found''),
        correlation = Some (js ''1700000000000-4fzyo82mv'')\<rparr>,
      \<lparr>todos = [todos store1 ! 1], nextId = 4\<rparr>)"
  using delete_removes_record [of 0 trace1 "js ''1''" env1 None None None env2 None None None]
  by (simp add: eval_store1 eval_step)

section \<open>Correlation identifiers\<close>

lemma digit_cases: "d < 10 \<Longrightarrow> d \<in> {0, 1, 2, 3, 4, 5, 6, 7, 8, 9 :: nat}"
  by auto

lemma digitValue_digitChar: "d < 10 \<Longrightarrow> digitValue (digitChar d) = Some d"
  by (drule digit_cases) (auto simp: digitChar_def digitValue_def)

lemma digitChar_not_dash: "d < 10 \<Longrightarrow> digitChar d \<noteq> 0x2D"
  by (drule digit_cases) (auto simp: digitChar_def)

lemma digitsValue_snoc:
  "digitsValue r (ds @ [c]) = digitsValue r ds * r + (case digitValue c of None \<Rightarrow> 0 | Some d \<Rightarrow> d)"
  by (simp add: digitsValue_def)

lemma digitsValue_decimal: "digitsValue 10 (decimal n) = n"
proof (induction n rule: decimal.induct)
  case (1 n)
  show ?case
  proof (cases "n < 10")
    case True
    then show ?thesis
      using digitsValue_snoc [of 10 "[]" "digitChar n"]
      by (simp add: decimal_small digitValue_digitChar digitsValue_def)
  next
    case False
    have "n mod 10 < 10" by simp
    then have "digitValue (digitChar (n mod 10)) = Some (n mod 10)"
      by (rule digitValue_digitChar)
    with False "1.IH" show ?thesis
      by (simp add: decimal_big digitsValue_snoc)
  qed
qed

lemma decimal_inj:
  assumes "decimal a = decimal b"
  shows "a = b"
proof -
  have "a = digitsValue 10 (decimal a)"
    by (simp only: digitsValue_decimal)
  also have "\<dots> = digitsValue 10 (decimal b)"
    by (simp only: assms)
  also have "\<dots> = b"
    by (simp only: digitsValue_decimal)
  finally show ?thesis .
qed

lemma split_at_first:
  "x \<notin> set xs \<Longrightarrow> x \<notin> set xs' \<Longrightarrow> xs @ x # ys = xs' @ x # ys' \<Longrightarrow> xs = xs' \<and> ys = ys'"
proof (induction xs arbitrary: xs')
  case Nil
  then show ?case by (cases xs') auto
next
  case (Cons a xs)
  then show ?case by (cases xs') auto
qed

lemma decimal_no_dash: "0x2D \<notin> set (decimal n)"
proof (induction n rule: decimal.induct)
  case (1 n)
  show ?case
  proof (cases "n < 10")
    case True
    then show ?thesis
      using digitChar_not_dash [of n] by (auto simp: decimal_small)
  next
    case False
    have "digitChar (n mod 10) \<noteq> 0x2D"
      by (rule digitChar_not_dash) simp
    with False "1.IH" show ?thesis
      by (auto simp: decimal_big)
  qed
qed

lemma js_dash: "js ''-'' = [0x2D]"
  by (simp add: js_def)

lemma generatedId_eq_iff:
  "generatedId t1 r1 = generatedId t2 r2 \<longleftrightarrow> t1 = t2 \<and> substr 2 9 r1 = substr 2 9 r2"
proof -
  have "decimal t1 @ 0x2D # substr 2 9 r1 = decimal t2 @ 0x2D # substr 2 9 r2 \<Longrightarrow>
        decimal t1 = decimal t2 \<and> substr 2 9 r1 = substr 2 9 r2"
    by (rule split_at_first [OF decimal_no_dash decimal_no_dash])
  then show ?thesis
    using decimal_inj [of t1 t2] by (auto simp: generatedId_def js_dash)
qed

lemma generatedId_nonempty: "generatedId t r \<noteq> []"
  by (simp add: generatedId_def js_dash)

text \<open>
  A body that the JSON middleware refuses never reaches the correlation middleware: the
  answer is the 500 of the error handler, with no correlation header, and the store is
  untouched.
\<close>

lemma malformed_body_skips_correlation:
  assumes "payload r = Malformed"
  shows "app e r s =
           (\<lparr>status = 500, body = ErrorBody (js ''Internal server error''), correlation = None\<rparr>, s)"
  using assms by (simp add: app_def internalError_def)

lemma malformed_body_skips_correlation_example:
  "app env1 \<lparr>meth = POST, target = Todos, correlationHeader = Some (js ''test-correlation-id''),
              payload = Malformed\<rparr> store1 =
     (\<lparr>status = 500, body = ErrorBody (js ''Internal server error''), correlation = None\<rparr>, store1)"
  using malformed_body_skips_correlation
      [of "\<lparr>meth = POST, target = Todos, correlationHeader = Some (js ''test-correlation-id''),
              payload = Malformed\<rparr>" env1 store1]
  by simp

text \<open>
  Claim C9, as the code has it. For every request whose body \<^verbatim>\<open>express.json()\<close> accepts: a
  header \<^verbatim>\<open>X-Correlation-ID\<close> with a non-empty value, such as \<^verbatim>\<open>test-correlation-id\<close>, comes
  back unchanged on the response; with the header omitted (or empty) the response
  carries the generated value, the decimal digits of \<^verbatim>\<open>Date.now()\<close>, a dash and at most
  nine characters of the random string. The generated value is never empty, and two
  generated values are equal exactly when the two clock readings are equal and the two
  nine-character suffixes are equal.
\<close>

theorem correlation_header_echoed_or_generated:
  assumes "payload r = Body ttl cmp"
  shows "(case correlationHeader r of
            None \<Rightarrow> correlation (fst (app e r s)) = Some (generatedId (now e) (random36 e))
          | Some v \<Rightarrow>
              correlation (fst (app e r s)) =
                Some (if v = [] then generatedId (now e) (random36 e) else v)) \<and>
         generatedId (now e) (random36 e) \<noteq> [] \<and>
         (generatedId (now e) (random36 e) = generatedId (now e') (random36 e') \<longleftrightarrow>
            now e = now e' \<and> substr 2 9 (random36 e) = substr 2 9 (random36 e'))"
proof -
  have "correlation (fst (app e r s)) =
          Some (correlationId (correlationHeader r) (now e) (random36 e))"
    using assms
    by (simp add: app_def Let_def split: prod.splits outcome.splits)
  then show ?thesis
    by (simp add: correlationId_def generatedId_nonempty generatedId_eq_iff split: option.splits)
qed

theorem correlation_header_echoed_or_generated_witness:
  "correlation (fst (app env1
      ((req GET Health None None)\<lparr>correlationHeader := Some (js ''test-correlation-id'')\<rparr>) store1)) =
     Some (js ''test-correlation-id'') \<and>
   correlation (fst (app env1 (req GET Health None None) store1)) =
     Some (js ''1700000000000-4fzyo82mv'') \<and>
   generatedId (now env1) (random36 env1) = js ''1700000000000-4fzyo82mv''"
  using correlation_header_echoed_or_generated
      [of "(req GET Health None None)\<lparr>correlationHeader := Some (js ''test-correlation-id'')\<rparr>"
          None None env1 store1 env2]
    correlation_header_echoed_or_generated [of "req GET Health None None" None None env1 store1 env2]
  by (simp add: eval_step)

text \<open>
  Claim C9 as stated asks for a generated value that is unique per request. Two requests
  without the header, served in the same millisecond with random strings that differ
  after their eleventh character only, get the same value.
\<close>

theorem correlation_not_unique_counterexample:
  "random36 env1 \<noteq> random36 env2 \<and>
   map correlation (fst (run [(env1, req GET Health None None), (env2, req GET Health None None)] store0)) =
     [Some (js ''1700000000000-4fzyo82mv''), Some (js ''1700000000000-4fzyo82mv'')]"
  by (simp add: eval_step)

section \<open>Titles after an update\<close>

text \<open>
  Claim C1 says that every record of a reachable store has a title that is neither empty
  nor white space only. The creation checks it (line 76); the update (line 98) assigns
  the title of the body as it is. Evaluated on \<^verbatim>\<open>POST /todos {title: "a"}\<close> followed by
  \<^verbatim>\<open>PUT /todos/1 {title: "   "}\<close>: the update answers 200 and the store holds a record whose
  title is three spaces.
\<close>

theorem put_stores_blank_title:
  "run [(env1, postTitle ''a''), (env1, req PUT (TodoById (js ''1'')) (Some (JStr (js ''   ''))) None)] store0 =
     ([\<lparr>status = 201,
         body = TodoBody \<lparr>todo_id = 1, title = JStr (js ''a''), completed = JBool False,
                          createdAt = js ''2023-11-14T22:13:20.000Z''\<rparr>,
         correlation = Some (js ''1700000000000-4fzyo82mv'')\<rparr>,
       \<lparr>status = 200,
         body = TodoBody \<lparr>todo_id = 1, title = JStr (js ''   ''), completed = JBool False,
                          createdAt = js ''2023-11-14T22:13:20.000Z''\<rparr>,
         correlation = Some (js ''1700000000000-4fzyo82mv'')\<rparr>],
      \<lparr>todos = [\<lparr>todo_id = 1, title = JStr (js ''   ''), completed = JBool False,
                   createdAt = js ''2023-11-14T22:13:20.000Z''\<rparr>], nextId = 2\<rparr>) \<and>
   trim (js ''   '') = [] \<and>
   list_ex blankTitle
     (todos (snd (run [(env1, postTitle ''a''),
                       (env1, req PUT (TodoById (js ''1'')) (Some (JStr (js ''   ''))) None)] store0)))"
  by (simp add: eval_defs)

end
